theory Spec2Isabelle
  imports Main "HOL-Library.Word"
begin

section \<open>JavaScript values\<close>

text \<open>
  The values the client handles: parsed JSON bodies, the two tokens and the fields of the
  envelopes. A JSON body never contains \<open>JUndefined\<close>; reading a missing property
  gives it. Numbers are restricted to the integers from \<open>-2^53\<close> to \<open>2^53 - 1\<close>,
  which a JavaScript number holds exactly and prints in full, digit by digit: a number is
  a word of 54 bits read as two's complement. An object is the list of its properties; a
  lookup takes the first entry of a key.
\<close>

datatype jsval =
    JUndefined
  | JNull
  | JBool bool
  | JNum "54 word"
  | JStr string
  | JArr "jsval list"
  | JObj "(string \<times> jsval) list"

text \<open>A thrown value: an \<open>Error\<close> object, with the name of its class and its message.\<close>

datatype exn = Exn (name: string) (message: string)

definition Error :: "string \<Rightarrow> exn" where
  "Error msg = Exn ''Error'' msg"

definition SyntaxError :: "string \<Rightarrow> exn" where
  "SyntaxError msg = Exn ''SyntaxError'' msg"

definition TypeError :: "string \<Rightarrow> exn" where
  "TypeError msg = Exn ''TypeError'' msg"

text \<open>The test of \<open>if (v)\<close>, \<open>v && ...\<close> and \<open>v || ...\<close>.\<close>

fun truthy :: "jsval \<Rightarrow> bool" where
  "truthy JUndefined = False"
| "truthy JNull = False"
| "truthy (JBool b) = b"
| "truthy (JNum n) = (n \<noteq> 0)"
| "truthy (JStr s) = (s \<noteq> [])"
| "truthy (JArr xs) = True"
| "truthy (JObj ps) = True"

definition digit :: "nat \<Rightarrow> char" where
  "digit d = char_of (48 + d)"

fun show_nat :: "nat \<Rightarrow> string" where
  "show_nat n = (if n < 10 then [digit n] else show_nat (n div 10) @ [digit (n mod 10)])"

declare show_nat.simps [simp del]

definition show_int :: "int \<Rightarrow> string" where
  "show_int i = (if i < 0 then CHR ''-'' # show_nat (nat (- i)) else show_nat (nat i))"

fun join :: "string \<Rightarrow> string list \<Rightarrow> string" where
  "join sep [] = []"
| "join sep [s] = s"
| "join sep (s # t # ss) = s @ sep @ join sep (t # ss)"

text \<open>
  The string form of a value, as a template literal, \<open>new Error(v)\<close> and
  \<open>localStorage.setItem\<close> take it. An array joins its elements with commas,
  \<open>null\<close> and \<open>undefined\<close> elements giving the empty string.
\<close>

fun toString :: "jsval \<Rightarrow> string" where
  "toString JUndefined = ''undefined''"
| "toString JNull = ''null''"
| "toString (JBool b) = (if b then ''true'' else ''false'')"
| "toString (JNum n) = show_int (sint n)"
| "toString (JStr s) = s"
| "toString (JArr xs) =
     join '','' (map (\<lambda>x. if x = JNull \<or> x = JUndefined then [] else toString x) xs)"
| "toString (JObj ps) = ''[object Object]''"

text \<open>
  The conversion to a string throws a TypeError on an object that has a property named
  \<open>toString\<close>: a value of a JSON body is never a function, so the property hides the
  method of the prototype and nothing is left to call. An array converts its elements, so
  it throws when one of them does.
\<close>

fun convertible :: "jsval \<Rightarrow> bool" where
  "convertible (JObj ps) = (''toString'' \<notin> set (map fst ps))"
| "convertible (JArr xs) = (\<forall>x \<in> set xs. convertible x)"
| "convertible v = True"

definition ToString :: "jsval \<Rightarrow> exn + string" where
  "ToString v =
     (if convertible v then Inr (toString v)
      else Inl (TypeError ''Cannot convert object to primitive value''))"

text \<open>
  Reading the property \<open>k\<close> of \<open>v\<close>, for the property names the client reads
  (\<open>error\<close>, \<open>access_token\<close>, \<open>refresh_token\<close>): \<open>null\<close> and \<open>undefined\<close>
  throw a TypeError, an object gives the property or \<open>undefined\<close>, and the other
  values have no such property.
\<close>

fun get_prop :: "jsval \<Rightarrow> string \<Rightarrow> exn + jsval" where
  "get_prop JNull k = Inl (TypeError (''Cannot read properties of null (reading '' @ [CHR 0x27] @ k @ [CHR 0x27] @ '')''))"
| "get_prop JUndefined k = Inl (TypeError (''Cannot read properties of undefined (reading '' @ [CHR 0x27] @ k @ [CHR 0x27] @ '')''))"
| "get_prop (JObj ps) k = Inr (case map_of ps k of None \<Rightarrow> JUndefined | Some v \<Rightarrow> v)"
| "get_prop v k = Inr JUndefined"

text \<open>\<open>toUpperCase\<close> on the ASCII letters, which is all a method name has.\<close>

definition upper_char :: "char \<Rightarrow> char" where
  "upper_char c =
     (if 97 \<le> (of_char c :: nat) \<and> (of_char c :: nat) \<le> 122
      then char_of ((of_char c :: nat) - 32) else c)"

definition toUpperCase :: "string \<Rightarrow> string" where
  "toUpperCase s = map upper_char s"

section \<open>The client and its environment\<close>

type_synonym headers = "(string \<times> string) list"

text \<open>
  The body of an outgoing call: the string \<open>JSON.stringify(v)\<close>, kept as the value
  that is serialized, or a body the caller passed through \<open>options\<close>.
\<close>

datatype payload = JSON_stringify jsval | Raw string

record config =
  "method" :: string
  headers :: headers
  body :: "payload option"

type_synonym fetch_call = "string \<times> config"

text \<open>The result of calling \<open>json()\<close> on a response object.\<close>

datatype json_result =
    JsonThrows exn
  | JsonRejects exn
  | JsonResolves jsval

record response =
  ok :: bool
  status :: nat
  statusText :: string
  json :: json_result

text \<open>
  What the network answers to a \<open>fetch\<close>: the promise rejects, or it resolves to a
  response with a status, a status text and a body, \<open>None\<close> when the body is not valid
  JSON. The network is a function of the calls made so far and of the call.
\<close>

datatype fetch_outcome =
    FetchRejects exn
  | FetchResponds nat string "jsval option"

type_synonym network = "fetch_call list \<Rightarrow> fetch_call \<Rightarrow> fetch_outcome"

text \<open>
  The response object of the Fetch API: \<open>ok\<close> is true for the statuses 200 to 299, and
  \<open>json()\<close> returns a promise, rejected when the body does not parse.
\<close>

definition fetch_response :: "nat \<Rightarrow> string \<Rightarrow> jsval option \<Rightarrow> response" where
  "fetch_response s t b =
     \<lparr>ok = (200 \<le> s \<and> s < 300), status = s, statusText = t,
      json = (case b of None \<Rightarrow> JsonRejects (SyntaxError ''Unexpected token'')
                      | Some v \<Rightarrow> JsonResolves v)\<rparr>"

text \<open>
  The state: the fields of the \<open>APIClient\<close> object, \<open>localStorage\<close>,
  \<open>window.location.href\<close>, the calls made through \<open>fetch\<close>, oldest first, and
  the uploads sent through \<open>XMLHttpRequest\<close> (URL, request headers, form data).
  Messages written to the console are not part of it.
\<close>

type_synonym formData = "(string \<times> string) list"

record state =
  baseURL :: string
  token :: jsval
  refreshToken :: jsval
  localStorage :: "string \<rightharpoonup> string"
  location_href :: string
  calls :: "fetch_call list"
  uploads :: "(string \<times> headers \<times> formData) list"

definition getItem :: "(string \<rightharpoonup> string) \<Rightarrow> string \<Rightarrow> jsval" where
  "getItem store k = (case store k of None \<Rightarrow> JNull | Some v \<Rightarrow> JStr v)"

definition constructor :: "(string \<rightharpoonup> string) \<Rightarrow> string \<Rightarrow> state" where
  "constructor store href =
     \<lparr>baseURL = ''/api'',
      token = getItem store ''admin_token'',
      refreshToken = getItem store ''admin_refresh_token'',
      localStorage = store,
      location_href = href,
      calls = [],
      uploads = []\<rparr>"

definition setToken :: "jsval \<Rightarrow> jsval \<Rightarrow> state \<Rightarrow> state" where
  "setToken tok refreshToken_arg st =
     (let refreshToken' = (if refreshToken_arg = JUndefined then JNull else refreshToken_arg);
          st1 = st\<lparr>token := tok,
                    localStorage := (localStorage st)(''admin_token'' \<mapsto> toString tok)\<rparr>
      in if truthy refreshToken'
         then st1\<lparr>refreshToken := refreshToken',
                  localStorage := (localStorage st1)(''admin_refresh_token'' \<mapsto> toString refreshToken')\<rparr>
         else st1)"

definition clearAuth :: "state \<Rightarrow> state" where
  "clearAuth st =
     st\<lparr>token := JNull, refreshToken := JNull,
        localStorage := ((localStorage st)(''admin_token'' := None))(''admin_refresh_token'' := None)\<rparr>"

definition getHeaders :: "state \<Rightarrow> headers" where
  "getHeaders st =
     [(''Content-Type'', ''application/json''), (''Accept'', ''application/json'')]
     @ (if truthy (token st) then [(''Authorization'', ''Bearer '' @ toString (token st))] else [])"

definition fetch :: "network \<Rightarrow> string \<Rightarrow> config \<Rightarrow> state \<Rightarrow> (exn + response) \<times> state" where
  "fetch net url cfg st =
     ((case net (calls st) (url, cfg) of
         FetchRejects e \<Rightarrow> Inl e
       | FetchResponds s t b \<Rightarrow> Inr (fetch_response s t b)),
      st\<lparr>calls := calls st @ [(url, cfg)]\<rparr>)"

section \<open>Responses\<close>

text \<open>
  The envelope a call returns. A property the source leaves out is \<open>JUndefined\<close>
  (\<open>data\<close>, \<open>error\<close>) or false (\<open>retry\<close>, which is only tested).
\<close>

record envelope =
  success :: bool
  retry :: bool
  data :: jsval
  error :: jsval

definition refresh_call :: "state \<Rightarrow> fetch_call" where
  "refresh_call st =
     (baseURL st @ ''/auth/refresh'',
      \<lparr>method = ''POST'',
       headers = [(''Content-Type'', ''application/json'')],
       body = Some (JSON_stringify (JObj [(''refresh_token'', refreshToken st)]))\<rparr>)"

text \<open>The \<open>try\<close> block of \<open>refreshAuthToken\<close>; \<open>Inr False\<close> is leaving it without a return.\<close>

definition refreshAuthToken_try :: "network \<Rightarrow> state \<Rightarrow> (exn + bool) \<times> state" where
  "refreshAuthToken_try net st =
     (case fetch net (fst (refresh_call st)) (snd (refresh_call st)) st of
        (Inl e, st1) \<Rightarrow> (Inl e, st1)
      | (Inr response, st1) \<Rightarrow>
          if ok response then
            (case json response of
               JsonThrows e \<Rightarrow> (Inl e, st1)
             | JsonRejects e \<Rightarrow> (Inl e, st1)
             | JsonResolves d \<Rightarrow>
                 (case get_prop d ''access_token'' of
                    Inl e \<Rightarrow> (Inl e, st1)
                  | Inr a \<Rightarrow>
                      (case get_prop d ''refresh_token'' of
                         Inl e \<Rightarrow> (Inl e, st1)
                       | Inr r \<Rightarrow> (Inr True, setToken a r st1))))
          else (Inr False, st1))"

text \<open>The outcome of the promise of \<open>refreshAuthToken\<close>: \<open>Inl\<close> is a rejection.\<close>

definition refreshAuthToken :: "network \<Rightarrow> state \<Rightarrow> (exn + bool) \<times> state" where
  "refreshAuthToken net st =
     (case refreshAuthToken_try net st of
        (Inl e, st1) \<Rightarrow> (Inr False, st1)
      | (Inr b, st1) \<Rightarrow> (Inr b, st1))"

text \<open>\<open>response.json().catch(() => ({}))\<close>: a call that throws never reaches the \<open>catch\<close>.\<close>

definition json_catch :: "json_result \<Rightarrow> exn + jsval" where
  "json_catch r =
     (case r of
        JsonThrows e \<Rightarrow> Inl e
      | JsonRejects e \<Rightarrow> Inr (JObj [])
      | JsonResolves v \<Rightarrow> Inr v)"

definition auth_required :: "state \<Rightarrow> (exn + envelope) \<times> state" where
  "auth_required st =
     (Inr \<lparr>success = False, retry = False, data = JUndefined,
           error = JStr ''Authentication required''\<rparr>,
      (clearAuth st)\<lparr>location_href := ''/admin/login''\<rparr>)"

definition handleResponse :: "network \<Rightarrow> response \<Rightarrow> state \<Rightarrow> (exn + envelope) \<times> state" where
  "handleResponse net response st =
     (case json_catch (json response) of
        Inl e \<Rightarrow> (Inl e, st)
      | Inr d \<Rightarrow>
          if \<not> ok response then
            if status response = 401 then
              if truthy (refreshToken st) then
                (case refreshAuthToken net st of
                   (Inl e, st1) \<Rightarrow> (Inl e, st1)
                 | (Inr refreshed, st1) \<Rightarrow>
                     if refreshed
                     then (Inr \<lparr>success = False, retry = True, data = JUndefined,
                                error = JUndefined\<rparr>, st1)
                     else auth_required st1)
              else auth_required st
            else
              (case get_prop d ''error'' of
                 Inl e \<Rightarrow> (Inl e, st)
               | Inr v \<Rightarrow>
                   if truthy v then
                     (case ToString v of
                        Inl e \<Rightarrow> (Inl e, st)
                      | Inr msg \<Rightarrow> (Inl (Error msg), st))
                   else
                     (Inl (Error (''HTTP '' @ show_nat (status response) @ '': ''
                                  @ statusText response)), st))
          else (Inr \<lparr>success = True, retry = False, data = d, error = JUndefined\<rparr>, st))"

section \<open>Requests\<close>

text \<open>
  The fourth argument of \<open>request\<close>: the properties of \<open>options\<close> that the spread
  \<open>...options\<close> writes over the ones of \<open>config\<close>.
\<close>

record options =
  o_method :: "string option"
  o_headers :: "headers option"
  o_body :: "payload option"

definition no_options :: options where
  "no_options = \<lparr>o_method = None, o_headers = None, o_body = None\<rparr>"

definition request_config :: "state \<Rightarrow> string \<Rightarrow> jsval \<Rightarrow> options \<Rightarrow> config" where
  "request_config st meth d opts =
     (let cfg = \<lparr>method = (case o_method opts of None \<Rightarrow> toUpperCase meth | Some m \<Rightarrow> m),
                 headers = (case o_headers opts of None \<Rightarrow> getHeaders st | Some h \<Rightarrow> h),
                 body = o_body opts\<rparr>
      in if truthy d \<and> method cfg \<in> set [''POST'', ''PUT'', ''PATCH'']
         then cfg\<lparr>body := Some (JSON_stringify d)\<rparr>
         else cfg)"

text \<open>
  The \<open>try\<close> block of \<open>request\<close>, in two parts: the call of \<open>fetch\<close>, and
  what follows \<open>await fetch(url, config)\<close> once the promise has settled; a rejected
  promise throws.
\<close>

definition request_respond :: "network \<Rightarrow> string \<Rightarrow> config \<Rightarrow> exn + response \<Rightarrow> state \<Rightarrow> (exn + envelope) \<times> state" where
  "request_respond net url cfg fetched st1 =
     (case fetched of
        Inl e \<Rightarrow> (Inl e, st1)
      | Inr response \<Rightarrow>
          (case handleResponse net response st1 of
             (Inl e, st2) \<Rightarrow> (Inl e, st2)
           | (Inr result, st2) \<Rightarrow>
               if retry result then
                 (case fetch net url (cfg\<lparr>headers := getHeaders st2\<rparr>) st2 of
                    (Inl e, st3) \<Rightarrow> (Inl e, st3)
                  | (Inr retryResponse, st3) \<Rightarrow> handleResponse net retryResponse st3)
               else (Inr result, st2)))"

definition request_try :: "network \<Rightarrow> string \<Rightarrow> config \<Rightarrow> state \<Rightarrow> (exn + envelope) \<times> state" where
  "request_try net url cfg st =
     (case fetch net url cfg st of
        (fetched, st1) \<Rightarrow> request_respond net url cfg fetched st1)"

definition request_catch :: "exn \<Rightarrow> envelope" where
  "request_catch e =
     \<lparr>success = False, retry = False, data = JUndefined,
      error = JStr (if message e \<noteq> [] then message e else ''Network error occurred'')\<rparr>"

text \<open>The \<open>catch\<close> block of \<open>request\<close>, applied to the outcome of the \<open>try\<close> block.\<close>

definition request_settle :: "(exn + envelope) \<times> state \<Rightarrow> (exn + envelope) \<times> state" where
  "request_settle tried =
     (case tried of
        (Inl e, st1) \<Rightarrow> (Inr (request_catch e), st1)
      | (Inr result, st1) \<Rightarrow> (Inr result, st1))"

text \<open>The outcome of the promise of \<open>request\<close>: \<open>Inl\<close> is a rejection.\<close>

definition request :: "network \<Rightarrow> string \<Rightarrow> string \<Rightarrow> jsval \<Rightarrow> options \<Rightarrow> state \<Rightarrow> (exn + envelope) \<times> state" where
  "request net meth endpoint d opts st =
     request_settle (request_try net (baseURL st @ endpoint) (request_config st meth d opts) st)"






section \<open>Uploads\<close>

text \<open>
  The event that ends an upload: \<open>error\<close>, or \<open>load\<close> with the status, the status text
  and the result of \<open>JSON.parse(xhr.responseText)\<close>, which throws a SyntaxError on a
  text that is not JSON. Progress events do not change the result and are left out.
\<close>

datatype xhr_outcome =
    XhrError
  | XhrLoad nat string "exn + jsval"

text \<open>
  The response object that \<open>onload\<close> builds: its \<open>json\<close> evaluates \<open>JSON.parse\<close>
  before \<open>Promise.resolve\<close> is called, so a text that does not parse makes the call of
  \<open>json()\<close> throw.
\<close>

definition xhr_response :: "nat \<Rightarrow> string \<Rightarrow> exn + jsval \<Rightarrow> response" where
  "xhr_response s t parsed =
     \<lparr>ok = (200 \<le> s \<and> s < 300), status = s, statusText = t,
      json = (case parsed of Inl e \<Rightarrow> JsonThrows e | Inr v \<Rightarrow> JsonResolves v)\<rparr>"

text \<open>The outcome of the promise of \<open>upload\<close>: \<open>Inr\<close> is \<open>resolve\<close>, \<open>Inl\<close> is \<open>reject\<close>.\<close>

definition upload :: "network \<Rightarrow> xhr_outcome \<Rightarrow> string \<Rightarrow> formData \<Rightarrow> state \<Rightarrow> (exn + envelope) \<times> state" where
  "upload net xhr endpoint fd st =
     (let st1 = st\<lparr>uploads := uploads st @
                  [(baseURL st @ endpoint,
                    (if truthy (token st) then [(''Authorization'', ''Bearer '' @ toString (token st))] else []),
                    fd)]\<rparr>
      in case xhr of
           XhrError \<Rightarrow> (Inl (Error ''Upload failed''), st1)
         | XhrLoad s t parsed \<Rightarrow> handleResponse net (xhr_response s t parsed) st1)"

section \<open>Batches\<close>







text \<open>
  The members of a batch run on the one client and take turns at every \<open>await\<close>. A
  call of \<open>request\<close> in progress is a task: the \<open>await\<close> at which it waits, with
  what it holds there. The flag tells the retry from the first attempt.
  \<^item> \<open>Fetching\<close>: at \<open>await fetch(url, config)\<close>, with the settled promise;
  \<^item> \<open>Parsing\<close>: in \<open>handleResponse\<close>, at \<open>await response.json()\<close>;
  \<^item> \<open>Refreshing\<close>: in \<open>refreshAuthToken\<close>, at \<open>await fetch(...)\<close>, with the
    settled promise;
  \<^item> \<open>RefreshParsing\<close>: in \<open>refreshAuthToken\<close>, at \<open>await response.json()\<close>;
  \<^item> \<open>Refreshed\<close>: in \<open>handleResponse\<close>, at \<open>await this.refreshAuthToken()\<close>,
    with the value returned;
  \<^item> \<open>Handled\<close>: in \<open>request\<close>, at \<open>await this.handleResponse(...)\<close>, with the
    settled promise;
  \<^item> \<open>Finished\<close>: the promise of \<open>request\<close> has settled.
\<close>

datatype task =
    Fetching bool string config "exn + response"
  | Parsing bool string config response
  | Refreshing bool string config "exn + response"
  | RefreshParsing bool string config response
  | Refreshed bool string config bool
  | Handled bool string config "exn + envelope"
  | Finished "exn + envelope"



text \<open>
  Whether \<open>handleResponse\<close>, resumed after \<open>await response.json()\<close>, reaches
  \<open>await this.refreshAuthToken()\<close>; otherwise it runs to its end without waiting.
\<close>

definition awaits_refresh :: "response \<Rightarrow> state \<Rightarrow> bool" where
  "awaits_refresh response st =
     (case json_catch (json response) of
        Inl e \<Rightarrow> False
      | Inr d \<Rightarrow> \<not> ok response \<and> status response = 401 \<and> truthy (refreshToken st))"

text \<open>
  One turn of a task: the code from the \<open>await\<close> at which it waits to the next one, run
  on the state of the client as it is at that moment.
\<close>

fun step :: "network \<Rightarrow> task \<Rightarrow> state \<Rightarrow> task \<times> state" where
  "step net (Fetching again url cfg fetched) st =
     (case fetched of
        Inl e \<Rightarrow> (Finished (Inr (request_catch e)), st)
      | Inr response \<Rightarrow> (Parsing again url cfg response, st))"
| "step net (Parsing again url cfg response) st =
     (if awaits_refresh response st then
        (case fetch net (fst (refresh_call st)) (snd (refresh_call st)) st of
           (fetched, st1) \<Rightarrow> (Refreshing again url cfg fetched, st1))
      else
        (case handleResponse net response st of
           (outcome, st1) \<Rightarrow> (Handled again url cfg outcome, st1)))"
| "step net (Refreshing again url cfg fetched) st =
     (case fetched of
        Inl e \<Rightarrow> (Refreshed again url cfg False, st)
      | Inr response \<Rightarrow>
          if ok response then (RefreshParsing again url cfg response, st)
          else (Refreshed again url cfg False, st))"
| "step net (RefreshParsing again url cfg response) st =
     (case json response of
        JsonThrows e \<Rightarrow> (Refreshed again url cfg False, st)
      | JsonRejects e \<Rightarrow> (Refreshed again url cfg False, st)
      | JsonResolves d \<Rightarrow>
          (case get_prop d ''access_token'' of
             Inl e \<Rightarrow> (Refreshed again url cfg False, st)
           | Inr a \<Rightarrow>
               (case get_prop d ''refresh_token'' of
                  Inl e \<Rightarrow> (Refreshed again url cfg False, st)
                | Inr r \<Rightarrow> (Refreshed again url cfg True, setToken a r st))))"
| "step net (Refreshed again url cfg refreshed) st =
     (if refreshed
      then (Handled again url cfg
              (Inr \<lparr>success = False, retry = True, data = JUndefined, error = JUndefined\<rparr>), st)
      else (case auth_required st of
              (outcome, st1) \<Rightarrow> (Handled again url cfg outcome, st1)))"
| "step net (Handled again url cfg outcome) st =
     (case outcome of
        Inl e \<Rightarrow> (Finished (Inr (request_catch e)), st)
      | Inr result \<Rightarrow>
          if retry result \<and> \<not> again then
            (case fetch net url (cfg\<lparr>headers := getHeaders st\<rparr>) st of
               (fetched, st1) \<Rightarrow>
                 (Fetching True url (cfg\<lparr>headers := getHeaders st\<rparr>) fetched, st1))
          else (Finished (Inr result), st))"
| "step net (Finished outcome) st = (Finished outcome, st)"

text \<open>A task taking \<open>n\<close> turns in a row.\<close>

fun run :: "network \<Rightarrow> nat \<Rightarrow> task \<Rightarrow> state \<Rightarrow> task \<times> state" where
  "run net 0 t st = (t, st)"
| "run net (Suc n) t st = (case step net t st of (t1, st1) \<Rightarrow> run net n t1 st1)"











section \<open>Scenarios\<close>

text \<open>
  A client created on a page whose storage holds an access token and a refresh token, and
  the networks used to run the operations on concrete inputs.
\<close>

definition st0 :: state where
  "st0 = constructor [''admin_token'' \<mapsto> ''A0'', ''admin_refresh_token'' \<mapsto> ''R0''] ''/admin''"

text \<open>The same answer to every call.\<close>

definition net_always :: "fetch_outcome \<Rightarrow> network" where
  "net_always outcome = (\<lambda>log call. outcome)"

text \<open>
  A server that refuses every access token with a 401 while its refresh endpoint keeps
  handing out new tokens.
\<close>

definition new_tokens :: jsval where
  "new_tokens = JObj [(''access_token'', JStr ''A1''), (''refresh_token'', JStr ''R1'')]"

definition net_refusing :: network where
  "net_refusing = (\<lambda>log call.
     if fst call = ''/api/auth/refresh''
     then FetchResponds 200 ''OK'' (Some new_tokens)
     else FetchResponds 401 ''Unauthorized'' (Some (JObj [(''error'', JStr ''Token expired'')])))"

text \<open>
  A server on which the access token has expired: it answers a call carrying the old
  token, or none, with a 401, its refresh endpoint returns new tokens, and a call carrying
  the new token gets its data.
\<close>

definition net_expired :: network where
  "net_expired = (\<lambda>log call.
     if fst call = ''/api/auth/refresh''
     then FetchResponds 200 ''OK'' (Some new_tokens)
     else if map_of (headers (snd call)) ''Authorization'' = Some ''Bearer A1''
     then FetchResponds 200 ''OK'' (Some (JObj [(''users'', JArr [])]))
     else FetchResponds 401 ''Unauthorized'' None)"










text \<open>Options that carry headers of the caller.\<close>

definition with_headers :: "headers \<Rightarrow> options" where
  "with_headers h = \<lparr>o_method = None, o_headers = Some h, o_body = None\<rparr>"

section \<open>Evaluation of the basic operations\<close>


lemma fetch_responds:
  "net (calls st) (url, cfg) = FetchResponds s t b \<Longrightarrow>
   fetch net url cfg st = (Inr (fetch_response s t b), st\<lparr>calls := calls st @ [(url, cfg)]\<rparr>)"
  by (simp add: fetch_def)

lemma handleResponse_2xx:
  "200 \<le> s \<Longrightarrow> s < 300 \<Longrightarrow>
   handleResponse net (fetch_response s t b) st =
     (Inr \<lparr>success = True, retry = False,
           data = (case b of None \<Rightarrow> JObj [] | Some v \<Rightarrow> v), error = JUndefined\<rparr>, st)"
  by (simp add: handleResponse_def fetch_response_def json_catch_def split: option.splits)

lemma st0_fields:
  "baseURL st0 = ''/api''" "token st0 = JStr ''A0''" "refreshToken st0 = JStr ''R0''"
  "calls st0 = []" "uploads st0 = []" "location_href st0 = ''/admin''"
  "localStorage st0 = [''admin_token'' \<mapsto> ''A0'', ''admin_refresh_token'' \<mapsto> ''R0'']"
  by (simp_all add: st0_def constructor_def getItem_def)

lemmas eval_defs =
  request_def request_settle_def request_try_def request_respond_def fetch_def
  handleResponse_def fetch_response_def json_catch_def
  refreshAuthToken_def refreshAuthToken_try_def refresh_call_def setToken_def clearAuth_def
  getHeaders_def auth_required_def request_config_def no_options_def toUpperCase_def
  upper_char_def request_catch_def net_expired_def net_refusing_def net_always_def
  new_tokens_def Error_def TypeError_def SyntaxError_def ToString_def

lemma refreshAuthToken_returns: "\<exists>r. fst (refreshAuthToken net st) = Inr r"
  by (auto simp add: refreshAuthToken_def split: prod.splits sum.splits)

lemma refreshAuthToken_calls:
  "calls (snd (refreshAuthToken net st)) = calls st @ [refresh_call st]"
  by (simp add: refreshAuthToken_def refreshAuthToken_try_def fetch_def setToken_def Let_def
      split: prod.splits sum.splits fetch_outcome.splits json_result.splits)

lemma handleResponse_401_no_token:
  "\<not> truthy (refreshToken st) \<Longrightarrow>
   handleResponse net (fetch_response 401 t b) st = auth_required st"
  by (simp add: handleResponse_def fetch_response_def json_catch_def split: option.splits)

lemma handleResponse_401_refresh_failed:
  "truthy (refreshToken st) \<Longrightarrow> fst (refreshAuthToken net st) = Inr False \<Longrightarrow>
   handleResponse net (fetch_response 401 t b) st = auth_required (snd (refreshAuthToken net st))"
  by (cases "refreshAuthToken net st")
     (simp add: handleResponse_def fetch_response_def json_catch_def split: option.splits)

lemma handleResponse_401_refreshed:
  "truthy (refreshToken st) \<Longrightarrow> fst (refreshAuthToken net st) = Inr True \<Longrightarrow>
   handleResponse net (fetch_response 401 t b) st =
     (Inr \<lparr>success = False, retry = True, data = JUndefined, error = JUndefined\<rparr>,
      snd (refreshAuthToken net st))"
  by (cases "refreshAuthToken net st")
     (simp add: handleResponse_def fetch_response_def json_catch_def split: option.splits)

lemma refresh_call_calls [simp]: "refresh_call (st\<lparr>calls := cs\<rparr>) = refresh_call st"
  by (simp add: refresh_call_def)

lemma handleResponse_error_status:
  assumes "\<not> (200 \<le> s \<and> s < 300)" "s \<noteq> 401"
  shows "handleResponse net (fetch_response s t b) st =
     (case get_prop (case b of None \<Rightarrow> JObj [] | Some x \<Rightarrow> x) ''error'' of
        Inl e \<Rightarrow> (Inl e, st)
      | Inr v \<Rightarrow>
          (Inl (if truthy v
                then (if convertible v then Error (toString v)
                      else TypeError ''Cannot convert object to primitive value'')
                else Error (''HTTP '' @ show_nat s @ '': '' @ t)), st))"
  using assms
  by (auto simp add: handleResponse_def fetch_response_def json_catch_def ToString_def
      split: option.splits sum.splits)

lemma get_prop_message: "get_prop x k = Inl e \<Longrightarrow> message e \<noteq> []"
  by (cases x) (auto simp add: TypeError_def)

lemma handleResponse_unparseable_body:
  "handleResponse net (fetch_response s t None) st
     = handleResponse net (fetch_response s t (Some (JObj []))) st"
  by (simp add: handleResponse_def fetch_response_def json_catch_def)

lemma handleResponse_calls_le:
  "\<exists>ys. calls (snd (handleResponse net r st)) = calls st @ ys \<and> length ys \<le> 1"
proof -
  have "calls (snd (refreshAuthToken net st)) = calls st @ [refresh_call st]"
    by (rule refreshAuthToken_calls)
  then show ?thesis
    by (auto simp add: handleResponse_def auth_required_def clearAuth_def
        split: sum.splits prod.splits)
qed

lemma request_try_calls:
  "\<exists>ys. calls (snd (request_try net url cfg st)) = calls st @ (url, cfg) # ys"
proof (cases "fetch net url cfg st")
  case (Pair r st1)
  then have c1: "calls st1 = calls st @ [(url, cfg)]" by (auto simp add: fetch_def)
  show ?thesis
  proof (cases r)
    case (Inl e)
    with Pair c1 show ?thesis by (simp add: request_try_def request_respond_def)
  next
    case (Inr response)
    obtain o2 st2 where h: "handleResponse net response st1 = (o2, st2)" by force
    from handleResponse_calls_le [of net response st1] h
    obtain ys where c2: "calls st2 = calls st1 @ ys" by auto
    show ?thesis
    proof (cases "\<exists>result. o2 = Inr result \<and> retry result")
      case False
      with Pair Inr h c1 c2 show ?thesis
        by (auto simp add: request_try_def request_respond_def split: sum.splits)
    next
      case True
      then obtain result where o2: "o2 = Inr result" "retry result" by auto
      obtain r3 st3 where f3: "fetch net url (cfg\<lparr>headers := getHeaders st2\<rparr>) st2 = (r3, st3)" by force
      then have c3: "calls st3 = calls st2 @ [(url, cfg\<lparr>headers := getHeaders st2\<rparr>)]"
        by (auto simp add: fetch_def)
      show ?thesis
      proof (cases r3)
        case (Inl e)
        with Pair Inr h o2 f3 c1 c2 c3 show ?thesis by (simp add: request_try_def request_respond_def)
      next
        case (Inr retryResponse)
        from handleResponse_calls_le [of net retryResponse st3]
        obtain zs where "calls (snd (handleResponse net retryResponse st3)) = calls st3 @ zs" by auto
        with Pair \<open>r = Inr response\<close> Inr h o2 f3 c1 c2 c3 show ?thesis
          by (simp add: request_try_def request_respond_def)
      qed
    qed
  qed
qed


section \<open>Successful responses\<close>

text \<open>
  C5. A request whose response has a status from 200 to 299 returns the envelope with
  \<open>success\<close> true and \<open>data\<close> the parsed JSON body of that response (the empty
  object when the body does not parse). This holds for the response to the first attempt,
  and for the response to the retry that follows a refreshed token.
\<close>

theorem request_2xx_envelope:
  "(net (calls st) (baseURL st @ endpoint, request_config st meth d opts) = FetchResponds s t b
      \<and> 200 \<le> s \<and> s < 300 \<longrightarrow>
    fst (request net meth endpoint d opts st) =
      Inr \<lparr>success = True, retry = False,
           data = (case b of None \<Rightarrow> JObj [] | Some v \<Rightarrow> v), error = JUndefined\<rparr>)
   \<and>
   (net (calls st) (baseURL st @ endpoint, request_config st meth d opts) = FetchResponds s' t' b'
      \<and> handleResponse net (fetch_response s' t' b')
           (st\<lparr>calls := calls st @ [(baseURL st @ endpoint, request_config st meth d opts)]\<rparr>)
         = (Inr result, st')
      \<and> retry result
      \<and> net (calls st') (baseURL st @ endpoint,
             (request_config st meth d opts)\<lparr>headers := getHeaders st'\<rparr>) = FetchResponds s t b
      \<and> 200 \<le> s \<and> s < 300 \<longrightarrow>
    fst (request net meth endpoint d opts st) =
      Inr \<lparr>success = True, retry = False,
           data = (case b of None \<Rightarrow> JObj [] | Some v \<Rightarrow> v), error = JUndefined\<rparr>)"
  by (simp add: request_def request_settle_def request_try_def request_respond_def
        fetch_responds
      handleResponse_2xx)

theorem request_2xx_envelope_witness:
  "fst (request (net_always (FetchResponds 200 ''OK'' (Some (JNum 7)))) ''GET'' ''/admin/dashboard'' JNull no_options st0)
     = Inr \<lparr>success = True, retry = False, data = JNum 7, error = JUndefined\<rparr>
   \<and> fst (request net_expired ''GET'' ''/admin/users'' JNull no_options st0)
     = Inr \<lparr>success = True, retry = False, data = JObj [(''users'', JArr [])], error = JUndefined\<rparr>"
proof -
  let ?cfg = "request_config st0 ''GET'' JNull no_options"
  let ?url = "baseURL st0 @ ''/admin/users''"
  let ?st1 = "st0\<lparr>calls := calls st0 @ [(?url, ?cfg)]\<rparr>"
  define st2 where "st2 = snd (handleResponse net_expired (fetch_response 401 ''Unauthorized'' None) ?st1)"
  have a: "net_always (FetchResponds 200 ''OK'' (Some (JNum 7))) (calls st0)
             (baseURL st0 @ ''/admin/dashboard'', ?cfg) = FetchResponds 200 ''OK'' (Some (JNum 7))
           \<and> (200::nat) \<le> 200 \<and> (200::nat) < 300"
    by (simp add: net_always_def)
  have b1: "net_expired (calls st0) (?url, ?cfg) = FetchResponds 401 ''Unauthorized'' None"
    by (simp add: eval_defs st0_fields)
  have b2: "handleResponse net_expired (fetch_response 401 ''Unauthorized'' None) ?st1
              = (Inr \<lparr>success = False, retry = True, data = JUndefined, error = JUndefined\<rparr>, st2)"
    unfolding st2_def by (simp add: eval_defs st0_fields)
  have b3: "net_expired (calls st2) (?url, ?cfg\<lparr>headers := getHeaders st2\<rparr>)
              = FetchResponds 200 ''OK'' (Some (JObj [(''users'', JArr [])]))"
    unfolding st2_def by (simp add: eval_defs st0_fields)
  show ?thesis
    using request_2xx_envelope [THEN conjunct1, rule_format,
            where net = "net_always (FetchResponds 200 ''OK'' (Some (JNum 7)))" and st = st0
              and endpoint = "''/admin/dashboard''" and meth = "''GET''" and d = JNull
              and opts = no_options, OF a]
          request_2xx_envelope [THEN conjunct2, rule_format,
            where net = net_expired and st = st0 and endpoint = "''/admin/users''"
              and meth = "''GET''" and d = JNull and opts = no_options and st' = st2,
            OF conjI [OF b1 conjI [OF b2 conjI [OF _ conjI [OF b3]]]]]
    by simp
qed

section \<open>Error statuses\<close>

text \<open>
  C6, as the code has it. A request whose first response has a status other than 200 to
  299 and other than 401 returns an envelope with \<open>success\<close> false and a non-empty
  error string. When the body does not parse, or is a JSON value other than \<open>null\<close>,
  the error is decided by the \<open>error\<close> property of the body: it is the server's
  message itself when that property is a non-empty string; it is the string form of the
  property when the property is truthy and converts to a string, replaced by
  \<open>Network error occurred\<close> when that string form is empty; and it is
  \<open>HTTP <status>: <status text>\<close> when the property is missing or falsy.
\<close>

theorem request_http_error:
  assumes first: "net (calls st) (baseURL st @ endpoint, request_config st meth d opts)
                    = FetchResponds s t b"
    and status: "\<not> (200 \<le> s \<and> s < 300)" "s \<noteq> 401"
  shows "\<exists>env m. request net meth endpoint d opts st =
            (Inr env, st\<lparr>calls := calls st @ [(baseURL st @ endpoint, request_config st meth d opts)]\<rparr>)
         \<and> \<not> success env \<and> error env = JStr m \<and> m \<noteq> []
         \<and> (\<forall>v. (b = None \<and> v = JUndefined \<or> (\<exists>x. b = Some x \<and> get_prop x ''error'' = Inr v)) \<longrightarrow>
               (\<forall>msg. v = JStr msg \<and> msg \<noteq> [] \<longrightarrow> m = msg)
             \<and> (truthy v \<and> convertible v \<and> toString v \<noteq> [] \<longrightarrow> m = toString v)
             \<and> (truthy v \<and> convertible v \<and> toString v = [] \<longrightarrow> m = ''Network error occurred'')
             \<and> (\<not> truthy v \<longrightarrow> m = ''HTTP '' @ show_nat s @ '': '' @ t))"
proof -
  let ?st1 = "st\<lparr>calls := calls st @ [(baseURL st @ endpoint, request_config st meth d opts)]\<rparr>"
  let ?bd = "case b of None \<Rightarrow> JObj [] | Some x \<Rightarrow> x"
  show ?thesis
  proof (cases "get_prop ?bd ''error''")
    case (Inl e)
    then have "request net meth endpoint d opts st = (Inr (request_catch e), ?st1)"
      using first status
      by (simp add: request_def request_settle_def request_try_def request_respond_def
          fetch_responds handleResponse_error_status)
    moreover have "message e \<noteq> []" using Inl by (rule get_prop_message)
    moreover have "b \<noteq> None" using Inl by (auto split: option.splits)
    ultimately show ?thesis using Inl by (auto simp add: request_catch_def)
  next
    case (Inr v)
    let ?e = "if truthy v
              then (if convertible v then Error (toString v)
                    else TypeError ''Cannot convert object to primitive value'')
              else Error (''HTTP '' @ show_nat s @ '': '' @ t)"
    have run: "request net meth endpoint d opts st = (Inr (request_catch ?e), ?st1)"
      using first status Inr
      by (simp add: request_def request_settle_def request_try_def request_respond_def
          fetch_responds handleResponse_error_status)
    have v: "b = None \<and> v' = JUndefined \<or> (\<exists>x. b = Some x \<and> get_prop x ''error'' = Inr v')
             \<Longrightarrow> v' = v" for v'
      using Inr by (auto split: option.splits)
    show ?thesis
      apply (rule exI [where x = "request_catch ?e"])
      apply (rule exI [where x = "if message ?e \<noteq> [] then message ?e else ''Network error occurred''"])
      using run v by (auto simp add: request_catch_def Error_def TypeError_def)
  qed
qed

theorem request_http_error_witness:
  "(\<exists>env. fst (request (net_always (FetchResponds 404 ''Not Found''
             (Some (JObj [(''error'', JStr ''No such user'')])))) ''GET'' ''/admin/users/7'' JNull no_options st0)
           = Inr env \<and> \<not> success env \<and> error env = JStr ''No such user'')
   \<and> (\<exists>env. fst (request (net_always (FetchResponds 500 ''Internal Server Error'' None))
             ''GET'' ''/admin/users/7'' JNull no_options st0)
           = Inr env \<and> \<not> success env \<and> error env = JStr ''HTTP 500: Internal Server Error'')"
proof
  let ?b = "Some (JObj [(''error'', JStr ''No such user'')])"
  let ?net = "net_always (FetchResponds 404 ''Not Found'' ?b)"
  have a: "?net (calls st0) (baseURL st0 @ ''/admin/users/7'', request_config st0 ''GET'' JNull no_options)
             = FetchResponds 404 ''Not Found'' ?b"
    by (simp add: net_always_def)
  have v: "?b = None \<and> JStr ''No such user'' = JUndefined
           \<or> (\<exists>x. ?b = Some x \<and> get_prop x ''error'' = Inr (JStr ''No such user''))"
    by simp
  from request_http_error [where net = ?net and st = st0, OF a] v
  show "\<exists>env. fst (request ?net ''GET'' ''/admin/users/7'' JNull no_options st0) = Inr env
          \<and> \<not> success env \<and> error env = JStr ''No such user''"
    by fastforce
next
  let ?net = "net_always (FetchResponds 500 ''Internal Server Error'' None)"
  have a: "?net (calls st0) (baseURL st0 @ ''/admin/users/7'', request_config st0 ''GET'' JNull no_options)
             = FetchResponds 500 ''Internal Server Error'' None"
    by (simp add: net_always_def)
  have n: "show_nat 500 = ''500''" by code_simp
  from request_http_error [where net = ?net and st = st0, OF a]
  obtain env m where
    "request ?net ''GET'' ''/admin/users/7'' JNull no_options st0
       = (Inr env, st0\<lparr>calls := calls st0 @ [(baseURL st0 @ ''/admin/users/7'', request_config st0 ''GET'' JNull no_options)]\<rparr>)"
    "\<not> success env" "error env = JStr m"
    "\<forall>v. (None = (None :: jsval option) \<and> v = JUndefined \<or> (\<exists>x. None = Some x \<and> get_prop x ''error'' = Inr v)) \<longrightarrow>
               (\<forall>msg. v = JStr msg \<and> msg \<noteq> [] \<longrightarrow> m = msg)
             \<and> (truthy v \<and> convertible v \<and> toString v \<noteq> [] \<longrightarrow> m = toString v)
             \<and> (truthy v \<and> convertible v \<and> toString v = [] \<longrightarrow> m = ''Network error occurred'')
             \<and> (\<not> truthy v \<longrightarrow> m = ''HTTP '' @ show_nat 500 @ '': '' @ ''Internal Server Error'')"
    by auto
  then show "\<exists>env. fst (request ?net ''GET'' ''/admin/users/7'' JNull no_options st0) = Inr env
          \<and> \<not> success env \<and> error env = JStr ''HTTP 500: Internal Server Error''"
    by (simp add: n)
qed

text \<open>
  C6 as stated fails: when the \<open>error\<close> property of the body is an object that holds
  the server's message, the error of the envelope is the string \<open>[object Object]\<close>,
  which is neither the server's message nor built from the status.
\<close>

theorem request_http_error_object_message:
  "fst (request (net_always (FetchResponds 404 ''Not Found''
          (Some (JObj [(''error'', JObj [(''message'', JStr ''No such user'')])]))))
        ''GET'' ''/admin/users/7'' JNull no_options st0)
     = Inr \<lparr>success = False, retry = False, data = JUndefined, error = JStr ''[object Object]''\<rparr>"
  by (simp add: eval_defs st0_fields)

text \<open>
  String forms on concrete values: a number is printed in decimal, an array joins the
  forms of its elements, and an object that hides \<open>toString\<close> does not convert.
\<close>

lemma show_int_examples: "show_int 404 = ''404''" "show_int (- 5) = ''-5''"
  by code_simp+

lemma toString_examples:
  "toString (JNum 404) = ''404''"
  "toString (JNum (- 5)) = ''-5''"
  "toString (JArr [JStr ''a'', JNull, JArr [JBool True], JObj []]) = ''a,,true,[object Object]''"
  "ToString (JObj [(''toString'', JStr ''x'')])
     = Inl (TypeError ''Cannot convert object to primitive value'')"
  by (simp_all add: show_int_examples ToString_def)

lemma request_http_error_number:
  "fst (request (net_always (FetchResponds 500 ''Internal Server Error''
          (Some (JObj [(''error'', JNum 404)]))))
        ''GET'' ''/admin/users/7'' JNull no_options st0)
     = Inr \<lparr>success = False, retry = False, data = JUndefined, error = JStr ''404''\<rparr>"
  by (simp add: eval_defs st0_fields show_int_examples)

section \<open>Authentication failures\<close>

text \<open>
  C3. When the first response to a request is a 401 and either no refresh token is stored
  or the refresh attempt fails, the access token and the refresh token are cleared, in the
  client and in storage, the original request is not sent again (the only calls are the
  original one and, when a refresh token was stored, the one to the refresh endpoint), and
  the call returns the envelope with \<open>success\<close> false and the error
  \<open>Authentication required\<close>, after pointing the page to the login route.
\<close>

theorem request_401_authentication_required:
  assumes first: "net (calls st) (baseURL st @ endpoint, request_config st meth d opts)
                    = FetchResponds 401 t b"
    and failed: "\<not> truthy (refreshToken st) \<or>
        fst (refreshAuthToken net
              (st\<lparr>calls := calls st @ [(baseURL st @ endpoint, request_config st meth d opts)]\<rparr>))
          = Inr False"
  shows "fst (request net meth endpoint d opts st)
           = Inr \<lparr>success = False, retry = False, data = JUndefined,
                  error = JStr ''Authentication required''\<rparr>
         \<and> token (snd (request net meth endpoint d opts st)) = JNull
         \<and> refreshToken (snd (request net meth endpoint d opts st)) = JNull
         \<and> localStorage (snd (request net meth endpoint d opts st)) ''admin_token'' = None
         \<and> localStorage (snd (request net meth endpoint d opts st)) ''admin_refresh_token'' = None
         \<and> location_href (snd (request net meth endpoint d opts st)) = ''/admin/login''
         \<and> calls (snd (request net meth endpoint d opts st))
             = calls st @ (baseURL st @ endpoint, request_config st meth d opts)
                 # (if truthy (refreshToken st) then [refresh_call st] else [])"
proof (cases "truthy (refreshToken st)")
  case False
  then show ?thesis
    using first
    by (simp add: request_def request_settle_def request_try_def request_respond_def
        fetch_responds handleResponse_401_no_token
        auth_required_def clearAuth_def)
next
  case True
  let ?st1 = "st\<lparr>calls := calls st @ [(baseURL st @ endpoint, request_config st meth d opts)]\<rparr>"
  from True failed have f: "fst (refreshAuthToken net ?st1) = Inr False" by simp
  from True have t: "truthy (refreshToken ?st1)" by simp
  have c: "calls (snd (refreshAuthToken net ?st1)) = calls ?st1 @ [refresh_call ?st1]"
    by (rule refreshAuthToken_calls)
  show ?thesis
    using first True c
    by (simp add: request_def request_settle_def request_try_def request_respond_def
        fetch_responds
        handleResponse_401_refresh_failed [OF t f] auth_required_def clearAuth_def)
qed

theorem request_401_authentication_required_witness:
  "fst (request (net_always (FetchResponds 401 ''Unauthorized'' None)) ''GET'' ''/admin/users'' JNull no_options st0)
           = Inr \<lparr>success = False, retry = False, data = JUndefined,
                  error = JStr ''Authentication required''\<rparr>
   \<and> token (snd (request (net_always (FetchResponds 401 ''Unauthorized'' None)) ''GET'' ''/admin/users'' JNull no_options st0)) = JNull
   \<and> refreshToken (snd (request (net_always (FetchResponds 401 ''Unauthorized'' None)) ''GET'' ''/admin/users'' JNull no_options st0)) = JNull
   \<and> localStorage (snd (request (net_always (FetchResponds 401 ''Unauthorized'' None)) ''GET'' ''/admin/users'' JNull no_options st0)) ''admin_token'' = None
   \<and> localStorage (snd (request (net_always (FetchResponds 401 ''Unauthorized'' None)) ''GET'' ''/admin/users'' JNull no_options st0)) ''admin_refresh_token'' = None
   \<and> length (calls (snd (request (net_always (FetchResponds 401 ''Unauthorized'' None)) ''GET'' ''/admin/users'' JNull no_options st0))) = 2"
proof -
  let ?net = "net_always (FetchResponds 401 ''Unauthorized'' None)"
  have a: "?net (calls st0) (baseURL st0 @ ''/admin/users'', request_config st0 ''GET'' JNull no_options)
             = FetchResponds 401 ''Unauthorized'' None"
    by (simp add: net_always_def)
  have b: "\<not> truthy (refreshToken st0) \<or>
        fst (refreshAuthToken ?net
              (st0\<lparr>calls := calls st0 @ [(baseURL st0 @ ''/admin/users'', request_config st0 ''GET'' JNull no_options)]\<rparr>))
          = Inr False"
    by (simp add: refreshAuthToken_def refreshAuthToken_try_def fetch_def net_always_def fetch_response_def)
  show ?thesis
    using request_401_authentication_required [OF a b]
    by (simp add: st0_fields)
qed

section \<open>Transport failures\<close>




section \<open>Bodies that are not JSON\<close>

text \<open>
  C7 at its failing input. For a response of \<open>fetch\<close> a body that does not parse is
  handled as the empty object (\<open>handleResponse_unparseable_body\<close>). The response
  object of \<open>upload\<close> parses the text when \<open>json()\<close> is called, before any promise
  exists, so \<open>handleResponse\<close> throws: an upload answered with status 200 and a body
  that is not JSON rejects with the SyntaxError instead of resolving to an envelope.
\<close>

theorem upload_unparseable_body_rejects:
  "fst (upload net_expired (XhrLoad 200 ''OK'' (Inl (SyntaxError ''Unexpected token <'')))
         ''/admin/import'' [(''file'', ''users.csv'')] st0)
     = Inl (SyntaxError ''Unexpected token <'')"
  by (simp add: upload_def xhr_response_def handleResponse_def json_catch_def)

section \<open>The outgoing call\<close>

text \<open>
  C9, as the code has it. The first call of \<open>request\<close> goes to the base URL followed
  by the endpoint, with the configuration \<open>request_config\<close>. Without a \<open>headers\<close>
  option its headers are the default ones: \<open>Content-Type: application/json\<close>,
  \<open>Accept: application/json\<close> and, exactly when the stored access token is truthy,
  \<open>Authorization: Bearer <access token>\<close>. A \<open>headers\<close> option of the caller
  replaces the default headers as a whole. The method is the upper-cased argument unless
  the options give one. The body is the JSON serialization of the data exactly when the
  data is truthy and the method is POST, PUT or PATCH; otherwise it is the body of the
  options, if any.
\<close>

theorem request_outgoing_call:
  "(\<exists>rest. calls (snd (request net meth endpoint d opts st))
       = calls st @ (baseURL st @ endpoint, request_config st meth d opts) # rest)
   \<and> (o_headers opts = None \<longrightarrow>
        headers (request_config st meth d opts) = getHeaders st
        \<and> map_of (getHeaders st) ''Content-Type'' = Some ''application/json''
        \<and> (truthy (token st) \<longrightarrow>
             map_of (getHeaders st) ''Authorization'' = Some (''Bearer '' @ toString (token st)))
        \<and> (\<not> truthy (token st) \<longrightarrow> map_of (getHeaders st) ''Authorization'' = None))
   \<and> (\<forall>h. o_headers opts = Some h \<longrightarrow> headers (request_config st meth d opts) = h)
   \<and> (o_method opts = None \<longrightarrow> method (request_config st meth d opts) = toUpperCase meth)
   \<and> (truthy d \<and> method (request_config st meth d opts) \<in> {''POST'', ''PUT'', ''PATCH''} \<longrightarrow>
        body (request_config st meth d opts) = Some (JSON_stringify d))
   \<and> (\<not> (truthy d \<and> method (request_config st meth d opts) \<in> {''POST'', ''PUT'', ''PATCH''}) \<longrightarrow>
        body (request_config st meth d opts) = o_body opts)"
proof (intro conjI impI allI)
  from request_try_calls [of net "baseURL st @ endpoint" "request_config st meth d opts" st]
  show "\<exists>rest. calls (snd (request net meth endpoint d opts st))
       = calls st @ (baseURL st @ endpoint, request_config st meth d opts) # rest"
    by (auto simp add: request_def request_settle_def split: prod.splits sum.splits)
qed (auto simp add: request_config_def getHeaders_def Let_def split: option.splits)

theorem request_outgoing_call_witness:
  "headers (request_config st0 ''post'' (JObj [(''email'', JStr ''a@b.c'')]) no_options)
     = [(''Content-Type'', ''application/json''), (''Accept'', ''application/json''),
        (''Authorization'', ''Bearer A0'')]
   \<and> method (request_config st0 ''post'' (JObj [(''email'', JStr ''a@b.c'')]) no_options) = ''POST''
   \<and> body (request_config st0 ''post'' (JObj [(''email'', JStr ''a@b.c'')]) no_options)
       = Some (JSON_stringify (JObj [(''email'', JStr ''a@b.c'')]))
   \<and> body (request_config st0 ''delete'' (JObj [(''email'', JStr ''a@b.c'')]) no_options) = None
   \<and> headers (request_config st0 ''get'' JNull (with_headers [(''X-Requested-With'', ''XMLHttpRequest'')]))
       = [(''X-Requested-With'', ''XMLHttpRequest'')]"
proof -
  let ?d = "JObj [(''email'', JStr ''a@b.c'')]"
  note parts = request_outgoing_call [THEN conjunct2]
  have up: "toUpperCase ''post'' = ''POST''" "toUpperCase ''delete'' = ''DELETE''"
    by code_simp+
  have h: "o_headers no_options = None" "o_method no_options = None" "o_body no_options = None"
    by (simp_all add: no_options_def)
  have t: "truthy (token st0)" by (simp add: st0_fields)
  have m: "method (request_config st0 ''post'' ?d no_options) = ''POST''"
    using parts [THEN conjunct2, THEN conjunct2, THEN conjunct1, rule_format,
            where opts = no_options and meth = "''post''" and st = st0 and d = ?d, OF h(2)]
    by (simp add: up)
  have m': "method (request_config st0 ''delete'' ?d no_options) = ''DELETE''"
    using parts [THEN conjunct2, THEN conjunct2, THEN conjunct1, rule_format,
            where opts = no_options and meth = "''delete''" and st = st0 and d = ?d, OF h(2)]
    by (simp add: up)
  have b: "truthy ?d \<and> method (request_config st0 ''post'' ?d no_options) \<in> {''POST'', ''PUT'', ''PATCH''}"
    by (simp add: m)
  have b': "\<not> (truthy ?d \<and> method (request_config st0 ''delete'' ?d no_options) \<in> {''POST'', ''PUT'', ''PATCH''})"
    by (simp add: m')
  have o: "o_headers (with_headers [(''X-Requested-With'', ''XMLHttpRequest'')])
             = Some [(''X-Requested-With'', ''XMLHttpRequest'')]"
    by (simp add: with_headers_def)
  show ?thesis
    using parts [THEN conjunct1, rule_format,
            where opts = no_options and meth = "''post''" and st = st0 and d = ?d, OF h(1)]
          m
          parts [THEN conjunct2, THEN conjunct2, THEN conjunct2, THEN conjunct1, rule_format, OF b]
          parts [THEN conjunct2, THEN conjunct2, THEN conjunct2, THEN conjunct2, rule_format, OF b']
          parts [THEN conjunct2, THEN conjunct1, rule_format, where st = st0 and meth = "''get''"
            and d = JNull, OF o]
    by (simp add: h getHeaders_def st0_fields)
qed

text \<open>
  C9 as stated fails: headers passed by the caller are applied in place of the defaults.
  With an access token stored, a request with one header of the caller goes out with that
  header alone, without \<open>Content-Type\<close> and without \<open>Authorization\<close>.
\<close>

theorem request_headers_option_replaces_defaults:
  "token st0 = JStr ''A0''
   \<and> calls (snd (request (net_always (FetchResponds 200 ''OK'' (Some (JObj [])))) ''GET'' ''/admin/users''
              JNull (with_headers [(''X-Requested-With'', ''XMLHttpRequest'')]) st0))
     = [(''/api/admin/users'',
         \<lparr>method = ''GET'', headers = [(''X-Requested-With'', ''XMLHttpRequest'')], body = None\<rparr>)]"
  by (simp add: eval_defs with_headers_def st0_fields)

section \<open>Refreshing the token\<close>




section \<open>Retrying after a refreshed token\<close>

text \<open>
  What the retry does on every input: \<open>handleResponse\<close> makes at most one call, to the
  refresh endpoint, so one \<open>request\<close> makes at most four calls (the request, a refresh,
  one retry, a refresh) and never sends the original request a third time. When the retry
  is answered with anything but a 401, the calls are the request, one refresh and the
  retry with headers rebuilt from the new token, and the result is the outcome of the retry.
\<close>

lemma handleResponse_not_401:
  "s \<noteq> 401 \<Longrightarrow> snd (handleResponse net (fetch_response s t b) st) = st"
  by (auto simp add: handleResponse_def fetch_response_def json_catch_def
      split: option.splits sum.splits)

lemma request_calls_bound:
  "length (calls (snd (request net meth endpoint d opts st))) \<le> length (calls st) + 4"
proof -
  let ?url = "baseURL st @ endpoint" and ?cfg = "request_config st meth d opts"
  obtain r st1 where f1: "fetch net ?url ?cfg st = (r, st1)" by force
  then have c1: "length (calls st1) = length (calls st) + 1" by (auto simp add: fetch_def)
  have h: "length (calls (snd (handleResponse net x s))) \<le> length (calls s) + 1" for x s
    using handleResponse_calls_le [of net x s] by auto
  have "length (calls (snd (request_try net ?url ?cfg st))) \<le> length (calls st) + 4"
  proof (cases r)
    case (Inl e)
    with f1 c1 show ?thesis by (simp add: request_try_def request_respond_def)
  next
    case (Inr response)
    obtain o2 st2 where h2: "handleResponse net response st1 = (o2, st2)" by force
    with h [of response st1] c1 have c2: "length (calls st2) \<le> length (calls st) + 2" by simp
    show ?thesis
    proof (cases "\<exists>result. o2 = Inr result \<and> retry result")
      case False
      with f1 Inr h2 c2 show ?thesis by (auto simp add: request_try_def request_respond_def split: sum.splits)
    next
      case True
      then obtain result where o2: "o2 = Inr result" "retry result" by auto
      obtain r3 st3 where f3: "fetch net ?url (?cfg\<lparr>headers := getHeaders st2\<rparr>) st2 = (r3, st3)"
        by force
      then have c3: "length (calls st3) = length (calls st2) + 1" by (auto simp add: fetch_def)
      show ?thesis
      proof (cases r3)
        case (Inl e)
        with f1 \<open>r = Inr response\<close> h2 o2 f3 c2 c3 show ?thesis by (simp add: request_try_def request_respond_def)
      next
        case (Inr retryResponse)
        with f1 \<open>r = Inr response\<close> h2 o2 f3 c2 c3 h [of retryResponse st3] show ?thesis
          by (simp add: request_try_def request_respond_def)
      qed
    qed
  qed
  then show ?thesis by (auto simp add: request_def request_settle_def split: prod.splits sum.splits)
qed

lemma request_refresh_retry_once:
  assumes first: "net (calls st) (baseURL st @ endpoint, request_config st meth d opts)
                    = FetchResponds 401 t b"
    and stored: "truthy (refreshToken st)"
    and refreshed: "refreshAuthToken net
        (st\<lparr>calls := calls st @ [(baseURL st @ endpoint, request_config st meth d opts)]\<rparr>)
          = (Inr True, st')"
    and again: "net (calls st') (baseURL st @ endpoint,
                  (request_config st meth d opts)\<lparr>headers := getHeaders st'\<rparr>)
                    = FetchResponds s' t' b'"
    and other: "s' \<noteq> 401"
  shows "calls (snd (request net meth endpoint d opts st)) =
           calls st @ [(baseURL st @ endpoint, request_config st meth d opts),
                       refresh_call st,
                       (baseURL st @ endpoint,
                        (request_config st meth d opts)\<lparr>headers := getHeaders st'\<rparr>)]"
    and "fst (request net meth endpoint d opts st) =
           (case fst (handleResponse net (fetch_response s' t' b')
                        (st'\<lparr>calls := calls st' @ [(baseURL st @ endpoint,
                           (request_config st meth d opts)\<lparr>headers := getHeaders st'\<rparr>)]\<rparr>)) of
              Inl e \<Rightarrow> Inr (request_catch e)
            | Inr result \<Rightarrow> Inr result)"
proof -
  let ?url = "baseURL st @ endpoint" and ?cfg = "request_config st meth d opts"
  let ?st1 = "st\<lparr>calls := calls st @ [(?url, ?cfg)]\<rparr>"
  let ?st3 = "st'\<lparr>calls := calls st' @ [(?url, ?cfg\<lparr>headers := getHeaders st'\<rparr>)]\<rparr>"
  from stored have t: "truthy (refreshToken ?st1)" by simp
  from refreshed have f: "fst (refreshAuthToken net ?st1) = Inr True"
    and s: "snd (refreshAuthToken net ?st1) = st'" by simp_all
  have c: "calls st' = calls st @ [(?url, ?cfg), refresh_call st]"
    using refreshAuthToken_calls [of net ?st1] s by simp
  have run: "request_try net ?url ?cfg st = handleResponse net (fetch_response s' t' b') ?st3"
    using first again
    by (simp add: request_try_def request_respond_def fetch_responds handleResponse_401_refreshed [OF t f] s)
  obtain o3 st4 where h: "handleResponse net (fetch_response s' t' b') ?st3 = (o3, st4)" by force
  with handleResponse_not_401 [OF other, of net t' b' ?st3] have st4: "st4 = ?st3" by simp
  show "calls (snd (request net meth endpoint d opts st)) =
           calls st @ [(?url, ?cfg), refresh_call st, (?url, ?cfg\<lparr>headers := getHeaders st'\<rparr>)]"
    using run h st4 c by (cases o3) (simp_all add: request_def request_settle_def)
  show "fst (request net meth endpoint d opts st) =
           (case fst (handleResponse net (fetch_response s' t' b') ?st3) of
              Inl e \<Rightarrow> Inr (request_catch e)
            | Inr result \<Rightarrow> Inr result)"
    using run h by (cases o3) (simp_all add: request_def request_settle_def)
qed

text \<open>
  C1 at its failing input. The stored tokens are \<open>A0\<close> and \<open>R0\<close>, the server answers
  every call with a 401 and its refresh endpoint returns new tokens. The response to the
  retry goes through \<open>handleResponse\<close> again, which refreshes the token a second time:
  one call of \<open>request\<close> makes two calls to the refresh endpoint.
\<close>

theorem request_retry_401_refreshes_again:
  "length (filter (\<lambda>call. fst call = ''/api/auth/refresh'')
     (calls (snd (request net_refusing ''GET'' ''/admin/users'' JNull no_options st0)))) = 2"
  by (simp add: eval_defs st0_fields)

text \<open>
  C2 at its failing input, the one of C1. The first response is a 401, a refresh token is
  stored and the refresh endpoint returns new tokens; the calls are the request, the
  refresh, the retry and a second refresh, and the caller gets the envelope
  \<open>{success: false, retry: true}\<close> that asks for a retry nobody makes.
\<close>

theorem request_retry_401_returns_retry_marker:
  "fst (request net_refusing ''GET'' ''/admin/users'' JNull no_options st0)
     = Inr \<lparr>success = False, retry = True, data = JUndefined, error = JUndefined\<rparr>
   \<and> map fst (calls (snd (request net_refusing ''GET'' ''/admin/users'' JNull no_options st0)))
     = [''/api/admin/users'', ''/api/auth/refresh'', ''/api/admin/users'', ''/api/auth/refresh'']"
  by (simp add: eval_defs st0_fields)

section \<open>Batches\<close>



lemma getHeaders_calls [simp]: "getHeaders (st\<lparr>calls := cs\<rparr>) = getHeaders st"
  by (simp add: getHeaders_def)

lemma request_config_calls [simp]:
  "request_config (st\<lparr>calls := cs\<rparr>) meth d opts = request_config st meth d opts"
  by (auto simp add: request_config_def Let_def split: option.splits)

subsection \<open>A task running alone is the request\<close>


lemma run_Finished [simp]: "run net n (Finished outcome) st = (Finished outcome, st)"
  by (induction n) simp_all










subsection \<open>Starting the members\<close>






subsection \<open>Taking turns\<close>








subsection \<open>Collecting the results\<close>












end
